theory Spec2Isabelle
  imports Main
begin

section \<open>Strings of the source\<close>

text \<open>
  The linter works on Python \<open>str\<close> values. They are modelled as \<open>string\<close> (a list of
  8-bit characters); the character classes below are the ASCII part of Python's
  \<open>\s\<close>, \<open>\w\<close>, \<open>str.isspace\<close>, \<open>str.lower\<close> and \<open>str.upper\<close>. A character outside ASCII
  is neither a space, a word character nor a cased letter in this model.
\<close>

abbreviation dquote :: char where "dquote \<equiv> CHR 0x22"
abbreviation bslash :: char where "bslash \<equiv> CHR 0x5C"
abbreviation hash :: char where "hash \<equiv> CHR ''#''"
abbreviation tab :: char where "tab \<equiv> CHR 0x09"
abbreviation newline :: char where "newline \<equiv> CHR 0x0A"
abbreviation creturn :: char where "creturn \<equiv> CHR 0x0D"

definition is_space :: "char \<Rightarrow> bool" where
  "is_space c = (let n = (of_char c :: nat) in n = 32 \<or> (9 \<le> n \<and> n \<le> 13) \<or> (28 \<le> n \<and> n \<le> 31))"

definition is_upper_char :: "char \<Rightarrow> bool" where
  "is_upper_char c = (let n = (of_char c :: nat) in 65 \<le> n \<and> n \<le> 90)"

definition is_lower_char :: "char \<Rightarrow> bool" where
  "is_lower_char c = (let n = (of_char c :: nat) in 97 \<le> n \<and> n \<le> 122)"

definition is_digit_char :: "char \<Rightarrow> bool" where
  "is_digit_char c = (let n = (of_char c :: nat) in 48 \<le> n \<and> n \<le> 57)"

definition is_word :: "char \<Rightarrow> bool" where
  "is_word c = (is_upper_char c \<or> is_lower_char c \<or> is_digit_char c \<or> c = CHR ''_'')"

text \<open>An ASCII letter changes case by its bit of weight 32, the sixth bit of the character.\<close>

definition lower_char :: "char \<Rightarrow> char" where
  "lower_char c = (if is_upper_char c
     then Char (digit0 c) (digit1 c) (digit2 c) (digit3 c) (digit4 c) True (digit6 c) (digit7 c)
     else c)"

definition upper_char :: "char \<Rightarrow> char" where
  "upper_char c = (if is_lower_char c
     then Char (digit0 c) (digit1 c) (digit2 c) (digit3 c) (digit4 c) False (digit6 c) (digit7 c)
     else c)"

definition lower :: "string \<Rightarrow> string" where
  "lower s = map lower_char s"

definition upper :: "string \<Rightarrow> string" where
  "upper s = map upper_char s"

definition isupper :: "string \<Rightarrow> bool" where
  "isupper s = (list_ex is_upper_char s \<and> \<not> list_ex is_lower_char s)"

definition rstrip :: "string \<Rightarrow> string" where
  "rstrip s = rev (dropWhile is_space (rev s))"

definition lstrip :: "string \<Rightarrow> string" where
  "lstrip s = dropWhile is_space s"

definition strip :: "string \<Rightarrow> string" where
  "strip s = rstrip (lstrip s)"

definition rstrip_char :: "char \<Rightarrow> string \<Rightarrow> string" where
  "rstrip_char c s = rev (dropWhile (\<lambda>x. x = c) (rev s))"

definition startswith :: "string \<Rightarrow> string \<Rightarrow> bool" where
  "startswith s p = (take (length p) s = p)"

definition endswith :: "string \<Rightarrow> string \<Rightarrow> bool" where
  "endswith s p = (length p \<le> length s \<and> drop (length s - length p) s = p)"

text \<open>\<open>str.split(",")\<close>: the pieces between the commas, empty pieces included.\<close>

fun split_comma :: "string \<Rightarrow> string \<Rightarrow> string list" where
  "split_comma [] cur = [cur]"
| "split_comma (c # cs) cur =
     (if c = CHR '','' then cur # split_comma cs [] else split_comma cs (cur @ [c]))"

text \<open>\<open>os.path.basename\<close> (POSIX): what follows the last slash.\<close>

definition basename :: "string \<Rightarrow> string" where
  "basename p = rev (takeWhile (\<lambda>c. c \<noteq> CHR ''/'') (rev p))"

text \<open>\<open>"%d" % n\<close>: the decimal digits of an integer.\<close>

fun str_nat :: "nat \<Rightarrow> string" where
  "str_nat n = (if n < 10 then [''0123456789'' ! n]
                else str_nat (n div 10) @ [''0123456789'' ! (n mod 10)])"

declare str_nat.simps [simp del]

definition str_int :: "int \<Rightarrow> string" where
  "str_int i = (if i < 0 then ''-'' @ str_nat (nat (- i)) else str_nat (nat i))"

datatype py_error = IndexError | ValueError string | ZeroDivisionError | AttributeError

section \<open>Regular expressions of the source\<close>

text \<open>
  Every pattern of the source is a sequence of greedy repetitions of one character class
  (\<open>\s*\<close>, \<open>\w+\<close>, \<open>[^)]+\<close>, a literal character). \<open>match_items\<close> is the backtracking
  matcher of Python's \<open>re\<close> on such a sequence: each item first takes the longest run it can
  and gives characters back one at a time while the rest of the pattern fails. It returns
  the text matched by each item, in order, and the text after the match.
\<close>

datatype quant = One | Star | Plus

type_synonym item = "(char \<Rightarrow> bool) \<times> quant"

fun backtrack :: "(nat \<Rightarrow> 'a option) \<Rightarrow> nat \<Rightarrow> nat \<Rightarrow> 'a option" where
  "backtrack k lo 0 = (if lo = 0 then k 0 else None)"
| "backtrack k lo (Suc n) =
     (if Suc n < lo then None
      else (case k (Suc n) of Some r \<Rightarrow> Some r | None \<Rightarrow> backtrack k lo n))"

definition min_count :: "quant \<Rightarrow> nat" where
  "min_count q = (case q of Star \<Rightarrow> 0 | _ \<Rightarrow> 1)"

definition max_count :: "quant \<Rightarrow> nat \<Rightarrow> nat" where
  "max_count q run = (case q of One \<Rightarrow> min 1 run | _ \<Rightarrow> run)"

primrec match_items :: "item list \<Rightarrow> string \<Rightarrow> (string list \<times> string) option" where
  "match_items [] s = Some ([], s)"
| "match_items (it # its) s =
     backtrack
       (\<lambda>n. map_option (\<lambda>(segs, rest). (take n s # segs, rest)) (match_items its (drop n s)))
       (min_count (snd it))
       (max_count (snd it) (length (takeWhile (fst it) s)))"

text \<open>\<open>re.search\<close>: the match at the leftmost position that has one, with the text before it.\<close>

fun re_search :: "item list \<Rightarrow> string \<Rightarrow> (string \<times> string list \<times> string) option" where
  "re_search its [] =
     (case match_items its [] of
        Some (segs, rest) \<Rightarrow> Some ([], segs, rest)
      | None \<Rightarrow> None)"
| "re_search its (c # cs) =
     (case match_items its (c # cs) of
        Some (segs, rest) \<Rightarrow> Some ([], segs, rest)
      | None \<Rightarrow> map_option (\<lambda>(pre, segs, rest). (c # pre, segs, rest)) (re_search its cs))"

definition lit :: "char \<Rightarrow> item" where
  "lit c = ((\<lambda>x. x = c), One)"

definition RE_COMMAND :: "item list" where
  "RE_COMMAND = [(is_space, Star), (is_word, Plus), (is_space, Star), lit CHR ''('']"

definition RE_COMMAND_START_SPACES :: "item list" where
  "RE_COMMAND_START_SPACES =
     [(is_space, Star), (is_word, Plus), (is_space, Star), lit CHR ''('', (is_space, Star)]"

definition RE_COMMAND_END_SPACES :: "item list" where
  "RE_COMMAND_END_SPACES = [(is_space, Star), lit CHR '')'']"

definition RE_LOGIC_CHECK :: "item list" where
  "RE_LOGIC_CHECK =
     [(is_word, Plus), (is_space, Star), lit CHR ''('', (is_space, Star),
      ((\<lambda>c. \<not> is_space c), Plus), ((\<lambda>c. c \<noteq> CHR '')''), Plus), lit CHR '')'']"

text \<open>\<open>Find(.*)\.cmake\<close>, of \<open>_get_expected\<close> and \<open>check_file_name\<close>.\<close>

definition RE_FIND_MODULE :: "item list" where
  "RE_FIND_MODULE =
     map lit ''Find'' @ [((\<lambda>c. c \<noteq> newline), Star)] @ map lit ''.cmake''"

text \<open>
  \<open>_RE_COMMAND_ARG.finditer(line)\<close>, with the pattern \<open>(\w+)\<close>: the maximal runs of word
  characters of the line, from left to right.
\<close>

fun word_tokens :: "string \<Rightarrow> string \<Rightarrow> string list" where
  "word_tokens [] cur = (if cur = [] then [] else [cur])"
| "word_tokens (c # cs) cur =
     (if is_word c then word_tokens cs (cur @ [c])
      else (if cur = [] then [] else [cur]) @ word_tokens cs [])"

text \<open>
  \<open>re.search(r"\bcmd\b", s)\<close> for a keyword \<open>cmd\<close> made of word characters: \<open>cmd\<close> occurs in
  \<open>s\<close> with no word character right before it and none right after it. \<open>pw\<close> tells whether
  the character before the current position is a word character.
\<close>

fun word_search :: "string \<Rightarrow> bool \<Rightarrow> string \<Rightarrow> bool" where
  "word_search cmd pw [] = (\<not> pw \<and> cmd = [])"
| "word_search cmd pw (c # cs) =
     ((\<not> pw \<and> startswith (c # cs) cmd \<and>
        (case drop (length cmd) (c # cs) of [] \<Rightarrow> True | d # _ \<Rightarrow> \<not> is_word d))
      \<or> word_search cmd (is_word c) cs)"

section \<open>Comment stripping\<close>

text \<open>
  The loop of \<open>clean_comments\<close>: \<open>prior\<close> is the output so far, \<open>prev\<close> the previous
  character (\<open>None\<close> for the empty string the source starts with).
\<close>

fun clean_loop :: "string \<Rightarrow> string \<Rightarrow> char option \<Rightarrow> bool \<Rightarrow> string \<times> bool" where
  "clean_loop [] prior prev quote = (prior, quote)"
| "clean_loop (c # cs) prior prev quote =
     (if c = dquote then
        (if prev \<noteq> Some bslash
         then clean_loop cs (prior @ [c]) (Some c) (\<not> quote)
         else clean_loop cs prior (Some c) quote)
      else if c = hash \<and> \<not> quote then (prior, quote)
      else if \<not> quote then clean_loop cs (prior @ [c]) (Some c) quote
      else clean_loop cs prior (Some c) quote)"

definition clean_comments :: "string \<Rightarrow> bool \<Rightarrow> string \<times> bool" where
  "clean_comments line quote =
     (if hash \<notin> set line \<and> dquote \<notin> set line
      then (if quote then ([], quote) else (line, quote))
      else (let (prior, q) = clean_loop line [] None quote in (rstrip prior, q)))"

record cleansed_lines =
  have_seen_uppercase :: "bool option"
  raw_lines :: "string list"
  lines :: "string list"

fun cleanse :: "string list \<Rightarrow> bool \<Rightarrow> string list" where
  "cleanse [] quote = []"
| "cleanse (line # rest) quote =
     (let (cleaned, q) = clean_comments line quote in cleaned # cleanse rest q)"

definition CleansedLines :: "string list \<Rightarrow> cleansed_lines" where
  "CleansedLines lns = \<lparr>have_seen_uppercase = None, raw_lines = lns, lines = cleanse lns False\<rparr>"

section \<open>Lint state and filters\<close>

type_synonym finding = "string \<times> nat \<times> string \<times> string"

definition ERROR_CATEGORIES :: "string list" where
  "ERROR_CATEGORIES =
     [''convention/filename'', ''linelength'', ''package/consistency'', ''package/stdargs'',
      ''readability/logic'', ''readability/mixedcase'', ''readability/wonkycase'', ''syntax'',
      ''whitespace/eol'', ''whitespace/extra'', ''whitespace/indent'', ''whitespace/mismatch'',
      ''whitespace/newline'', ''whitespace/tabs'']"

definition logic_commands :: "string list" where
  "logic_commands = [''else'', ''endforeach'', ''endfunction'', ''endif'', ''endmacro'', ''endwhile'']"

record lint_state =
  filters :: "string list"
  errors :: nat
  spaces :: int
  linelength :: int
  quiet :: bool

definition init_lint_state :: lint_state where
  "init_lint_state = \<lparr>filters = [], errors = 0, spaces = 2, linelength = 80, quiet = False\<rparr>"

text \<open>What \<open>set_filters\<close> can be given: \<open>None\<close>, a list, a string, or a value of another type.\<close>

datatype filters_arg = ArgNone | ArgList "string list" | ArgStr string | ArgOther

text \<open>The entries \<open>set_filters\<close> appends to the active filters.\<close>

definition filter_entries :: "filters_arg \<Rightarrow> string list" where
  "filter_entries a =
     (case a of
        ArgList fs \<Rightarrow> fs
      | ArgStr s \<Rightarrow> map strip (filter (\<lambda>f. f \<noteq> []) (split_comma s []))
      | _ \<Rightarrow> [])"

definition filter_allowed :: "string \<Rightarrow> bool" where
  "filter_allowed f = list_ex (\<lambda>c. startswith c (drop 1 f)) ERROR_CATEGORIES"

text \<open>The validation loop of \<open>set_filters\<close>, over all active filters: the first exception raised.\<close>

fun validate_filters :: "string list \<Rightarrow> py_error option" where
  "validate_filters [] = None"
| "validate_filters (f # fs) =
     (if startswith f ''-'' \<or> startswith f ''+'' then
        (if filter_allowed f then validate_filters fs
         else Some (ValueError (''Filter not allowed: '' @ f)))
      else Some (ValueError ''Filter should start with - or +''))"

text \<open>
  \<open>set_filters\<close> returns the exception it raises, if any, and the state it leaves: the state
  is mutated before the validation loop runs.
\<close>

definition set_filters :: "lint_state \<Rightarrow> filters_arg \<Rightarrow> py_error option \<times> lint_state" where
  "set_filters st a =
     (if a = ArgNone \<or> a = ArgList [] \<or> a = ArgStr [] then (None, st)
      else if a = ArgOther
        then (Some (ValueError ''Filters should be a list or a comma separated string''), st)
      else (let st' = st\<lparr>filters := filters st @ filter_entries a\<rparr>
            in (validate_filters (filters st'), st')))"

fun should_print_loop :: "string list \<Rightarrow> string \<Rightarrow> bool \<Rightarrow> bool" where
  "should_print_loop [] category should_print = should_print"
| "should_print_loop (f # fs) category should_print =
     (if startswith f ''-'' \<and> startswith category (drop 1 f)
        then should_print_loop fs category False
      else if startswith f ''+'' \<and> startswith category (drop 1 f)
        then should_print_loop fs category True
      else should_print_loop fs category should_print)"

definition should_print_error :: "lint_state \<Rightarrow> string \<Rightarrow> bool" where
  "should_print_error st category = should_print_loop (filters st) category True"

text \<open>
  The state of a run: the two global objects of the source and the findings printed so far
  (a printed line \<open>file:line: message [category]\<close> is kept as its finding; the notice of a
  skipped file as \<open>Ignoring\<close>).
\<close>

record package_state =
  sets :: "string list"
  have_included_stdargs :: bool
  have_used_stdargs :: bool

definition init_package_state :: package_state where
  "init_package_state = \<lparr>sets = [], have_included_stdargs = False, have_used_stdargs = False\<rparr>"

datatype out_line = Printed finding | Ignoring string

record world =
  lint :: lint_state
  package :: package_state
  stdout :: "out_line list"

definition error :: "world \<Rightarrow> finding \<Rightarrow> world" where
  "error w f =
     (case f of (filename, linenumber, category, message) \<Rightarrow>
        if should_print_error (lint w) category
        then w\<lparr>lint := (lint w)\<lparr>errors := errors (lint w) + 1\<rparr>, stdout := stdout w @ [Printed f]\<rparr>
        else w)"

text \<open>The calls a check makes to its \<open>errors\<close> argument, passed to \<open>error\<close> in order.\<close>

definition report :: "world \<Rightarrow> finding list \<Rightarrow> world" where
  "report w fs = foldl error w fs"

definition then_do :: "'e + 'a \<Rightarrow> ('a \<Rightarrow> 'e + 'b) \<Rightarrow> 'e + 'b" where
  "then_do m f = (case m of Inl e \<Rightarrow> Inl e | Inr x \<Rightarrow> f x)"

text \<open>\<open>xs[i]\<close> and what is done with it; an index out of range raises.\<close>

definition with_line :: "string list \<Rightarrow> nat \<Rightarrow> (string \<Rightarrow> py_error + 'a) \<Rightarrow> py_error + 'a" where
  "with_line lns i f = (if i < length lns then f (lns ! i) else Inl IndexError)"

section \<open>Package state of a Find module\<close>

definition is_find_package :: "string \<Rightarrow> bool" where
  "is_find_package filename =
     (startswith (basename filename) ''Find'' \<and> endswith filename ''.cmake'')"

definition get_expected :: "string \<Rightarrow> string" where
  "get_expected filename =
     (let package = basename filename in
      case match_items RE_FIND_MODULE package of
        Some (segs, rest) \<Rightarrow> upper (segs ! 4 @ rest)
      | None \<Rightarrow> upper package)"

text \<open>\<open>_CMakePackageState.done\<close>; the \<open>finally\<close> clause resets both flags on every path.\<close>

definition package_done :: "package_state \<Rightarrow> string \<Rightarrow> package_state \<times> finding list" where
  "package_done ps filename =
     (ps\<lparr>have_used_stdargs := False, have_included_stdargs := False\<rparr>,
      if \<not> is_find_package filename then []
      else if have_included_stdargs ps \<and> have_used_stdargs ps then []
      else (if \<not> have_included_stdargs ps
            then [(filename, 0, ''package/consistency'',
                   ''Package should include FindPackageHandleStandardArgs'')]
            else [])
         @ (if \<not> have_used_stdargs ps
            then [(filename, 0, ''package/consistency'',
                   ''Package should use FIND_PACKAGE_HANDLE_STANDARD_ARGS'')]
            else []))"

definition have_used_standard_args ::
  "package_state \<Rightarrow> string \<Rightarrow> nat \<Rightarrow> string \<Rightarrow> package_state \<times> finding list" where
  "have_used_standard_args ps filename linenumber var =
     (let expected = get_expected filename in
      (ps\<lparr>have_used_stdargs := True\<rparr>,
       if expected \<noteq> var
       then [(filename, linenumber, ''package/stdargs'',
              ''Weird variable passed to std args, should be '' @ expected @ '' not '' @ var)]
       else []))"

definition have_included :: "package_state \<Rightarrow> string \<Rightarrow> package_state" where
  "have_included ps var =
     (if var = ''FindPackageHandleStandardArgs'' then ps\<lparr>have_included_stdargs := True\<rparr> else ps)"

section \<open>The checks\<close>

definition check_line_length ::
  "lint_state \<Rightarrow> string \<Rightarrow> nat \<Rightarrow> cleansed_lines \<Rightarrow> py_error + finding list" where
  "check_line_length st filename linenumber clean_lines =
     with_line (raw_lines clean_lines) linenumber (\<lambda>line.
       Inr (if int (length line) > linelength st
            then [(filename, linenumber, ''linelength'',
                   ''Lines should be <= '' @ str_int (linelength st) @ '' characters long'')]
            else []))"

text \<open>\<open>contains_command\<close>: the groups 1 and 2 of the match of \<open>_RE_COMMAND\<close>, if there is one.\<close>

definition contains_command :: "string \<Rightarrow> (string \<times> string) option" where
  "contains_command line =
     map_option (\<lambda>(segs, rest). (segs ! 1, segs ! 2)) (match_items RE_COMMAND line)"

definition get_command :: "string \<Rightarrow> string" where
  "get_command line = (case contains_command line of Some (g1, g2) \<Rightarrow> g1 | None \<Rightarrow> [])"

definition is_command_mixed_case :: "string \<Rightarrow> bool" where
  "is_command_mixed_case command = (\<not> (command = lower command \<or> command = upper command))"

definition is_command_upper_case :: "string \<Rightarrow> bool" where
  "is_command_upper_case command = (command = upper command)"

definition check_upper_lower_case ::
  "string \<Rightarrow> nat \<Rightarrow> cleansed_lines \<Rightarrow> py_error + (cleansed_lines \<times> finding list)" where
  "check_upper_lower_case filename linenumber clean_lines =
     with_line (lines clean_lines) linenumber (\<lambda>line.
       if contains_command line \<noteq> None then
         (let command = get_command line in
          if is_command_mixed_case command
            then Inr (clean_lines, [(filename, linenumber, ''readability/wonkycase'',
                                     ''Do not use mixed case commands'')])
          else (case have_seen_uppercase clean_lines of
                  None \<Rightarrow>
                    Inr (clean_lines\<lparr>have_seen_uppercase := Some (is_command_upper_case command)\<rparr>, [])
                | Some seen \<Rightarrow>
                    if is_command_upper_case command \<noteq> seen
                    then Inr (clean_lines, [(filename, linenumber, ''readability/mixedcase'',
                                             ''Do not mix upper and lower case commands'')])
                    else Inr (clean_lines, [])))
       else Inr (clean_lines, []))"

definition get_initial_spaces :: "string \<Rightarrow> nat" where
  "get_initial_spaces line = length (takeWhile (\<lambda>c. c = CHR '' '') line)"

text \<open>
  The \<open>while True\<close> loop of \<open>check_command_spaces\<close>: the line number and the line it stops
  at, and group 1 of the match of \<open>_RE_COMMAND_END_SPACES\<close> there, if any.
\<close>

function find_end :: "string list \<Rightarrow> nat \<Rightarrow> py_error + (nat \<times> string \<times> string option)" where
  "find_end lns linenumber =
     (if linenumber < length lns then
        (let line = lns ! linenumber in
         case re_search RE_COMMAND_END_SPACES line of
           Some (pre, segs, rest) \<Rightarrow> Inr (linenumber, line, Some (segs ! 0))
         | None \<Rightarrow>
             if Suc linenumber \<ge> length lns then Inr (Suc linenumber, line, None)
             else find_end lns (Suc linenumber))
      else Inl IndexError)"
  by pat_completeness auto
termination
  by (relation "measure (\<lambda>(lns, linenumber). length lns - linenumber)") auto

declare find_end.simps [simp del]

definition check_command_spaces ::
  "string \<Rightarrow> nat \<Rightarrow> cleansed_lines \<Rightarrow> py_error + finding list" where
  "check_command_spaces filename linenumber clean_lines =
     with_line (lines clean_lines) linenumber (\<lambda>line.
       case contains_command line of
         None \<Rightarrow> Inr []
       | Some (g1, g2) \<Rightarrow>
          (let extra = (if length g2 \<noteq> 0
                        then [(filename, linenumber, ''whitespace/extra'',
                               ''Extra spaces between '' @ [CHR 0x27] @ g1 @ [CHR 0x27] @ '' and its ()'')]
                        else [])
           in case match_items RE_COMMAND_START_SPACES line of
                None \<Rightarrow> Inl AttributeError
              | Some (segs, rest) \<Rightarrow>
                 (let spaces_after_open = length (segs ! 4) in
                  then_do (find_end (lines clean_lines) linenumber) (\<lambda>(last_linenumber, last_line, end_group).
                    Inr (extra
                      @ (if last_linenumber = length (lines clean_lines) \<and> end_group = None
                         then [(filename, linenumber, ''syntax'', ''Unable to find the end of this command'')]
                         else [])
                      @ (case end_group of
                           None \<Rightarrow> []
                         | Some g \<Rightarrow>
                            (let spaces_before_end = length g;
                                 initial_spaces = get_initial_spaces last_line;
                                 spaces_before_end =
                                   (if linenumber \<noteq> last_linenumber \<and> spaces_before_end \<ge> initial_spaces
                                    then spaces_before_end - initial_spaces else spaces_before_end)
                             in if spaces_after_open \<noteq> spaces_before_end
                                then [(filename, linenumber, ''whitespace/mismatch'',
                                       ''Mismatching spaces inside () after command'')]
                                else [])))))))"

text \<open>The loop of \<open>check_repeat_logic\<close> over \<open>_logic_commands\<close>; it ends at the first keyword found.\<close>

fun repeat_logic_loop :: "string list \<Rightarrow> string \<Rightarrow> nat \<Rightarrow> string \<Rightarrow> finding list" where
  "repeat_logic_loop [] filename linenumber line = []"
| "repeat_logic_loop (cmd # cmds) filename linenumber line =
     (if word_search cmd False (lower line) then
        (case re_search RE_LOGIC_CHECK line of
           Some (pre, segs, rest) \<Rightarrow>
             [(filename, linenumber, ''readability/logic'',
               ''Expression repeated inside '' @ cmd @ ''; better to use only '' @ segs ! 0 @ ''()'')]
         | None \<Rightarrow> [])
      else repeat_logic_loop cmds filename linenumber line)"

definition check_repeat_logic ::
  "string \<Rightarrow> nat \<Rightarrow> cleansed_lines \<Rightarrow> py_error + finding list" where
  "check_repeat_logic filename linenumber clean_lines =
     with_line (lines clean_lines) linenumber (\<lambda>line.
       Inr (repeat_logic_loop logic_commands filename linenumber line))"

definition check_indent ::
  "lint_state \<Rightarrow> string \<Rightarrow> nat \<Rightarrow> cleansed_lines \<Rightarrow> py_error + finding list" where
  "check_indent st filename linenumber clean_lines =
     with_line (raw_lines clean_lines) linenumber (\<lambda>line.
       if spaces st = 0 then Inl ZeroDivisionError
       else Inr (if int (get_initial_spaces line) mod spaces st \<noteq> 0
                 then [(filename, linenumber, ''whitespace/indent'',
                        ''Weird indentation; use '' @ str_int (spaces st) @ '' spaces'')]
                 else []))"

definition check_style ::
  "lint_state \<Rightarrow> string \<Rightarrow> nat \<Rightarrow> cleansed_lines \<Rightarrow> py_error + finding list" where
  "check_style st filename linenumber clean_lines =
     then_do (check_indent st filename linenumber clean_lines) (\<lambda>f1.
     then_do (check_command_spaces filename linenumber clean_lines) (\<lambda>f2.
     with_line (raw_lines clean_lines) linenumber (\<lambda>line.
       (let f3 = (if tab \<in> set line
                  then [(filename, linenumber, ''whitespace/tabs'', ''Tab found; please use spaces'')]
                  else []);
            f4 = (if line \<noteq> [] \<and> is_space (last line)
                  then [(filename, linenumber, ''whitespace/eol'', ''Line ends in whitespace'')]
                  else [])
        in then_do (check_repeat_logic filename linenumber clean_lines) (\<lambda>f5.
             Inr (f1 @ f2 @ f3 @ f4 @ f5))))))"

definition check_file_name :: "string \<Rightarrow> finding list" where
  "check_file_name filename =
     (case match_items RE_FIND_MODULE (basename filename) of
        Some (segs, rest) \<Rightarrow>
          (let package = segs ! 4 in
           if \<not> isupper package
           then [(filename, 0, ''convention/filename'',
                  ''Find modules should use uppercase names; consider using Find''
                    @ upper package @ ''.cmake'')]
           else [])
      | None \<Rightarrow>
          if lower filename = ''cmakelists.txt'' \<and> filename \<noteq> ''CMakeLists.txt''
          then [(filename, 0, ''convention/filename'', ''File should be called CMakeLists.txt'')]
          else [])"

text \<open>
  The \<open>while True\<close> loop of \<open>get_command_argument\<close>: it has no test on the line number, so
  the read of \<open>clean_lines.lines[linenumber]\<close> raises once the lines are exhausted.
\<close>

function command_argument_loop :: "string \<Rightarrow> string list \<Rightarrow> nat \<Rightarrow> py_error + string" where
  "command_argument_loop skip lns linenumber =
     (if linenumber < length lns then
        (case find (\<lambda>t. t \<noteq> skip) (word_tokens (lns ! linenumber) []) of
           Some t \<Rightarrow> Inr t
         | None \<Rightarrow> command_argument_loop skip lns (Suc linenumber))
      else Inl IndexError)"
  by pat_completeness auto
termination
  by (relation "measure (\<lambda>(skip, lns, linenumber). length lns - linenumber)") auto

declare command_argument_loop.simps [simp del]

definition get_command_argument :: "nat \<Rightarrow> cleansed_lines \<Rightarrow> py_error + string" where
  "get_command_argument linenumber clean_lines =
     with_line (lines clean_lines) linenumber (\<lambda>line.
       command_argument_loop (get_command line) (lines clean_lines) linenumber)"

definition check_find_package ::
  "package_state \<Rightarrow> string \<Rightarrow> nat \<Rightarrow> cleansed_lines \<Rightarrow> py_error + (package_state \<times> finding list)" where
  "check_find_package ps filename linenumber clean_lines =
     with_line (lines clean_lines) linenumber (\<lambda>line.
       (let cmd = get_command line in
        if cmd \<noteq> [] then
          (if lower cmd = ''include'' then
             then_do (get_command_argument linenumber clean_lines) (\<lambda>var_name.
               Inr (have_included ps var_name, []))
           else if lower cmd = ''find_package_handle_standard_args'' then
             then_do (get_command_argument linenumber clean_lines) (\<lambda>var_name.
               Inr (have_used_standard_args ps filename linenumber var_name))
           else Inr (ps, []))
        else Inr (ps, [])))"

section \<open>Pragmas, lines and files\<close>

definition linter_pragma_start :: string where
  "linter_pragma_start = ''# lint_cmake: ''"

text \<open>
  \<open>check_lint_pragma\<close>: the new lint state and the calls made to \<open>errors\<close>. \<open>has_errors\<close> is
  false for the call that passes no \<open>errors\<close> argument. \<open>set_filters\<close> on a string raises
  nothing but \<open>ValueError\<close>; the handler of any other exception reports no finding.
\<close>

definition check_lint_pragma ::
  "lint_state \<Rightarrow> string \<Rightarrow> nat \<Rightarrow> string \<Rightarrow> bool \<Rightarrow> lint_state \<times> finding list" where
  "check_lint_pragma st filename linenumber line has_errors =
     (if startswith line linter_pragma_start then
        (case set_filters st (ArgStr (drop (length linter_pragma_start) line)) of
           (Some (ValueError ex), st') \<Rightarrow>
             (st', if has_errors then [(filename, linenumber, ''syntax'', ex)] else [])
         | (_, st') \<Rightarrow> (st', []))
      else (st, []))"

definition process_line ::
  "world \<Rightarrow> cleansed_lines \<Rightarrow> string \<Rightarrow> nat \<Rightarrow> py_error + (world \<times> cleansed_lines)" where
  "process_line w clean_lines filename linenumber =
     with_line (raw_lines clean_lines) linenumber (\<lambda>raw.
       (let (st, f0) = check_lint_pragma (lint w) filename linenumber raw True;
            w0 = report (w\<lparr>lint := st\<rparr>) f0
        in then_do (check_line_length (lint w0) filename linenumber clean_lines) (\<lambda>f1.
           (let w1 = report w0 f1
            in then_do (check_upper_lower_case filename linenumber clean_lines) (\<lambda>(clean_lines', f2).
               (let w2 = report w1 f2
                in then_do (check_style (lint w2) filename linenumber clean_lines') (\<lambda>f3.
                   (let w3 = report w2 f3
                    in if is_find_package filename then
                         then_do (check_find_package (package w3) filename linenumber clean_lines')
                           (\<lambda>(ps, f4). Inr (report (w3\<lparr>package := ps\<rparr>) f4, clean_lines'))
                       else Inr (w3, clean_lines')))))))))"

definition is_valid_file :: "string \<Rightarrow> bool" where
  "is_valid_file filename =
     (endswith filename ''.cmake'' \<or> lower (basename filename) = ''cmakelists.txt'')"

text \<open>
  The reading loop of \<open>_process_file\<close> over the lines \<open>readlines()\<close> returned: the lines
  collected, whether a carriage return was seen, and the lint state after the pragmas.
\<close>

fun read_lines ::
  "string \<Rightarrow> string list \<Rightarrow> string list \<Rightarrow> bool \<Rightarrow> lint_state \<Rightarrow> string list \<times> bool \<times> lint_state" where
  "read_lines filename [] lns have_cr st = (lns, have_cr, st)"
| "read_lines filename (l # rest) lns have_cr st =
     (let line = rstrip_char newline l;
          cr = endswith line [creturn];
          line = (if cr then rstrip_char creturn line else line);
          lns = lns @ [line];
          (st', fs) = check_lint_pragma st filename (length lns - 1) line False
      in read_lines filename rest lns (have_cr \<or> cr) st')"

text \<open>The loop \<open>for line in clean_lines.line_numbers(): process_line(...)\<close>.\<close>

fun process_lines ::
  "world \<Rightarrow> cleansed_lines \<Rightarrow> string \<Rightarrow> nat list \<Rightarrow> py_error + (world \<times> cleansed_lines)" where
  "process_lines w clean_lines filename [] = Inr (w, clean_lines)"
| "process_lines w clean_lines filename (n # ns) =
     then_do (process_line w clean_lines filename n) (\<lambda>(w', clean_lines').
       process_lines w' clean_lines' filename ns)"

definition line_numbers :: "cleansed_lines \<Rightarrow> nat list" where
  "line_numbers clean_lines = [0 ..< length (lines clean_lines)]"

text \<open>
  \<open>_process_file\<close>, on the lines read from the file (\<open>contents\<close>, each with its line end) and
  the line separator of the host (\<open>os.linesep\<close>).
\<close>

definition process_file_body :: "world \<Rightarrow> string \<Rightarrow> string list \<Rightarrow> string \<Rightarrow> py_error + world" where
  "process_file_body w filename contents linesep =
     (if \<not> is_valid_file filename then Inr (w\<lparr>stdout := stdout w @ [Ignoring filename]\<rparr>)
      else
        (let (lns, have_cr, st) =
               read_lines filename contents [''# Lines start at 1''] False (lint w);
             lns = lns @ [''# Lines end here''];
             w1 = report (w\<lparr>lint := st, package := init_package_state\<rparr>) (check_file_name filename);
             w2 = (if have_cr \<and> linesep \<noteq> [creturn, newline]
                   then error w1 (filename, 0, ''whitespace/newline'',
                                  ''Unexpected carriage return found; better to use only '' @ [bslash] @ ''n'')
                   else w1);
             clean_lines = CleansedLines lns
         in then_do (process_lines w2 clean_lines filename (line_numbers clean_lines))
              (\<lambda>(w3, clean_lines').
                 (let (ps, fs) = package_done (package w3) filename
                  in Inr (report (w3\<lparr>package := ps\<rparr>) fs)))))"

text \<open>
  \<open>process_file\<close> restores the filters the state had before the file. An exception leaves
  the function (nothing above it catches one), so a run that raises has no final state.
\<close>

definition process_file :: "world \<Rightarrow> string \<Rightarrow> string list \<Rightarrow> string \<Rightarrow> py_error + world" where
  "process_file w filename contents linesep =
     (let original_filters = filters (lint w)
      in then_do (process_file_body w filename contents linesep) (\<lambda>w'.
           Inr (w'\<lparr>lint := (lint w')\<lparr>filters := original_filters\<rparr>\<rparr>)))"

definition init_world :: world where
  "init_world = \<lparr>lint = init_lint_state, package = init_package_state, stdout = []\<rparr>"

section \<open>Scenarios on whole files\<close>

text \<open>
  C7. Processing \<open>FindFOO.cmake\<close> with the lines \<open>include(FindPackageHandleStandardArgs)\<close>
  and \<open>find_package_handle_standard_args(BAR)\<close> prints exactly one finding, a
  \<open>package/stdargs\<close> finding at line 2 (expected \<open>FOO\<close>, got \<open>BAR\<close>), and no
  \<open>package/consistency\<close> finding; after the last line and before \<open>done\<close> runs, the
  package state is both included and used.
\<close>

theorem scenario_find_module_stdargs:
  "process_file init_world ''FindFOO.cmake''
     [''include(FindPackageHandleStandardArgs)'' @ [newline],
      ''find_package_handle_standard_args(BAR)'' @ [newline]] [newline]
   = Inr \<lparr>lint = init_lint_state\<lparr>errors := 1\<rparr>, package = init_package_state,
          stdout = [Printed (''FindFOO.cmake'', 2, ''package/stdargs'',
                      ''Weird variable passed to std args, should be FOO not BAR'')]\<rparr>
   \<and> (case process_lines init_world
          (CleansedLines [''# Lines start at 1'', ''include(FindPackageHandleStandardArgs)'',
                          ''find_package_handle_standard_args(BAR)'', ''# Lines end here''])
          ''FindFOO.cmake'' [0, 1, 2, 3] of
        Inl e \<Rightarrow> False
      | Inr (w, clean_lines) \<Rightarrow>
          have_included_stdargs (package w) \<and> have_used_stdargs (package w)
          \<and> stdout w = [Printed (''FindFOO.cmake'', 2, ''package/stdargs'',
                          ''Weird variable passed to std args, should be FOO not BAR'')])"
  by code_simp

text \<open>
  C8. For the path \<open>src/cmakelists.txt\<close> the basename is not a Find module name, equals
  \<open>cmakelists.txt\<close> case-insensitively and is not \<open>CMakeLists.txt\<close>, and the file is
  accepted by \<open>is_valid_file\<close>; yet \<open>check_file_name\<close> emits no finding, because it
  compares the whole path, not the basename, with \<open>cmakelists.txt\<close>.
\<close>

theorem check_file_name_ignores_directory:
  "match_items RE_FIND_MODULE (basename ''src/cmakelists.txt'') = None
   \<and> lower (basename ''src/cmakelists.txt'') = ''cmakelists.txt''
   \<and> basename ''src/cmakelists.txt'' \<noteq> ''CMakeLists.txt''
   \<and> is_valid_file ''src/cmakelists.txt''
   \<and> check_file_name ''src/cmakelists.txt'' = []
   \<and> check_file_name ''cmakelists.txt''
       = [(''cmakelists.txt'', 0, ''convention/filename'', ''File should be called CMakeLists.txt'')]"
  by code_simp

end
